theory Spec2Isabelle
  imports Main "HOL-Library.Word"
begin

section \<open>The task-list client of \<^verbatim>\<open>frontend/src/App.vue\<close>\<close>

text \<open>
  The component keeps four reactive cells (\<^verbatim>\<open>todos\<close>, \<^verbatim>\<open>newTaskTitle\<close>,
  \<^verbatim>\<open>editingTaskId\<close>, \<^verbatim>\<open>editingTitle\<close>), the task objects the list refers to, six
  handlers and a mount callback. Every handler that talks to the server is an \<^verbatim>\<open>async\<close> function with a
  single \<^verbatim>\<open>await\<close>: it runs synchronously up to the request, is suspended, and is resumed
  with the outcome of the request. Other handlers may run while it is suspended.
  Accordingly each such handler is embedded as two functions: \<open>f_begin\<close>, the code before the
  \<^verbatim>\<open>await\<close>, and \<open>f_resume\<close>, the code after it (the rest of the \<^verbatim>\<open>try\<close> block when the
  promise is fulfilled, the \<^verbatim>\<open>catch\<close> block when it is rejected), applied to whatever the
  state is when the response arrives. \<open>f_run\<close> is the two in sequence with nothing
  in between.

  \<^verbatim>\<open>console.error\<close> writes to the browser console only and is left out of the state.
\<close>

subsection \<open>Strings and \<^verbatim>\<open>String.prototype.trim\<close>\<close>

text \<open>A JavaScript string is a sequence of 16-bit code units.\<close>

type_synonym jsstring = "16 word list"

text \<open>Code units of an ASCII literal.\<close>

definition ascii :: "string \<Rightarrow> jsstring" where
  "ascii cs = map of_char cs"

text \<open>
  \<^verbatim>\<open>trim\<close> strips the code points of ECMAScript's WhiteSpace and LineTerminator
  productions from both ends: TAB, LF, VT, FF, CR, SP, NBSP, the Unicode space separators
  (U+1680, U+2000 to U+200A, U+202F, U+205F, U+3000), LS, PS and ZWNBSP. All of them are
  single code units.
\<close>

definition isWhiteSpace :: "16 word \<Rightarrow> bool" where
  "isWhiteSpace c \<longleftrightarrow>
     c = 0x0009 \<or> c = 0x000A \<or> c = 0x000B \<or> c = 0x000C \<or> c = 0x000D \<or> c = 0x0020 \<or>
     c = 0x00A0 \<or> c = 0x1680 \<or> (0x2000 \<le> c \<and> c \<le> 0x200A) \<or> c = 0x2028 \<or> c = 0x2029 \<or>
     c = 0x202F \<or> c = 0x205F \<or> c = 0x3000 \<or> c = 0xFEFF"

definition trim :: "jsstring \<Rightarrow> jsstring" where
  "trim s = rev (dropWhile isWhiteSpace (rev (dropWhile isWhiteSpace s)))"

subsection \<open>Tasks, requests and the component state\<close>

text \<open>The wire format of a task: \<^verbatim>\<open>{id, title, description, is_completed}\<close>.\<close>

record task =
  task_id :: nat
  title :: jsstring
  description :: "jsstring option"
  is_completed :: bool

datatype json = JNull | JBool bool | JNum nat | JStr jsstring

type_synonym body = "(string \<times> json) list"

definition json_description :: "jsstring option \<Rightarrow> json" where
  "json_description d = (case d of None \<Rightarrow> JNull | Some x \<Rightarrow> JStr x)"

text \<open>A whole task object passed as a request body.\<close>

definition task_body :: "task \<Rightarrow> body" where
  "task_body t =
     [(''id'', JNum (task_id t)), (''title'', JStr (title t)),
      (''description'', json_description (description t)),
      (''is_completed'', JBool (is_completed t))]"

text \<open>
  The four calls on \<^verbatim>\<open>API_URL\<close>; \<open>PUT i\<close> and \<open>DELETE i\<close> address
  \<^verbatim>\<open>${API_URL}${i}/\<close>.
\<close>

datatype request = GET | POST body | PUT nat body | DELETE nat

text \<open>The promise of a request is fulfilled with \<^verbatim>\<open>response.data\<close> or rejected.\<close>

datatype 'a outcome = Resolved 'a | Rejected

text \<open>
  Task objects are shared: the template hands a handler the very object that sits in
  \<^verbatim>\<open>todos\<close>, and \<^verbatim>\<open>toggleTodoStatus\<close> writes to it. So objects live in a store, \<open>heap\<close>,
  addressed by references, and \<open>todos\<close> is a list of references. \<open>nextRef\<close> is the next
  unused reference. \<open>sent\<close> records the requests issued so far, oldest first; it is not a
  cell of the component.
\<close>

type_synonym ref = nat

record state =
  todos :: "ref list"
  heap :: "ref \<Rightarrow> task"
  nextRef :: ref
  newTaskTitle :: jsstring
  editingTaskId :: "nat option"
  editingTitle :: jsstring
  sent :: "request list"

text \<open>What a handler has done when control returns to the event loop.\<close>

datatype 'k step = Finished state | Awaiting state 'k

definition send :: "request \<Rightarrow> state \<Rightarrow> state" where
  "send r s = s\<lparr>sent := sent s @ [r]\<rparr>"

text \<open>The object a response body is parsed into is a new one.\<close>

definition alloc :: "task \<Rightarrow> state \<Rightarrow> ref \<times> state" where
  "alloc t s = (nextRef s, s\<lparr>heap := (heap s)(nextRef s := t), nextRef := Suc (nextRef s)\<rparr>)"

fun alloc_all :: "task list \<Rightarrow> state \<Rightarrow> ref list \<times> state" where
  "alloc_all [] s = ([], s)"
| "alloc_all (t # ts) s =
     (case alloc t s of (r, s1) \<Rightarrow> (case alloc_all ts s1 of (rs, s2) \<Rightarrow> (r # rs, s2)))"

text \<open>The list as it is rendered: the current fields of each entry.\<close>

definition tasks :: "state \<Rightarrow> task list" where
  "tasks s = map (heap s) (todos s)"

text \<open>Every entry of the list is an object that has been created.\<close>

definition refs_ok :: "state \<Rightarrow> bool" where
  "refs_ok s \<longleftrightarrow> list_all (\<lambda>r. r < nextRef s) (todos s)"

text \<open>The state set up by the \<^verbatim>\<open>ref(...)\<close> initialisers.\<close>

definition blank_task :: task where
  "blank_task = \<lparr>task_id = 0, title = [], description = None, is_completed = False\<rparr>"

definition init :: state where
  "init = \<lparr>todos = [], heap = (\<lambda>_. blank_task), nextRef = 0, newTaskTitle = [],
           editingTaskId = None, editingTitle = [], sent = []\<rparr>"

subsection \<open>\<^verbatim>\<open>Array.prototype.findIndex\<close>\<close>

fun findIndex_from :: "('a \<Rightarrow> bool) \<Rightarrow> 'a list \<Rightarrow> int \<Rightarrow> int" where
  "findIndex_from P [] k = - 1"
| "findIndex_from P (x # xs) k = (if P x then k else findIndex_from P xs (k + 1))"

definition findIndex :: "('a \<Rightarrow> bool) \<Rightarrow> 'a list \<Rightarrow> int" where
  "findIndex P xs = findIndex_from P xs 0"

subsection \<open>The handlers\<close>

text \<open>\<^verbatim>\<open>addTask\<close>\<close>

definition addTask_begin :: "state \<Rightarrow> unit step" where
  "addTask_begin s =
     (if trim (newTaskTitle s) = [] then Finished s
      else Awaiting
             (send (POST [(''title'', JStr (newTaskTitle s)), (''is_completed'', JBool False)]) s)
             ())"

definition addTask_resume :: "state \<Rightarrow> task outcome \<Rightarrow> state" where
  "addTask_resume s out =
     (case out of
        Resolved data \<Rightarrow>
          (case alloc data s of
             (r, s1) \<Rightarrow> s1\<lparr>todos := todos s1 @ [r], newTaskTitle := []\<rparr>)
      | Rejected \<Rightarrow> s)"

definition addTask_run :: "state \<Rightarrow> task outcome \<Rightarrow> state" where
  "addTask_run s out =
     (case addTask_begin s of Finished s1 \<Rightarrow> s1 | Awaiting s1 _ \<Rightarrow> addTask_resume s1 out)"

text \<open>\<^verbatim>\<open>deleteTask\<close>; \<open>confirmed\<close> is what \<^verbatim>\<open>confirm(...)\<close> returns.\<close>

definition deleteTask_begin :: "bool \<Rightarrow> nat \<Rightarrow> state \<Rightarrow> nat step" where
  "deleteTask_begin confirmed i s =
     (if \<not> confirmed then Finished s else Awaiting (send (DELETE i) s) i)"

definition deleteTask_resume :: "nat \<Rightarrow> state \<Rightarrow> unit outcome \<Rightarrow> state" where
  "deleteTask_resume i s out =
     (case out of
        Resolved _ \<Rightarrow> s\<lparr>todos := filter (\<lambda>todo. task_id (heap s todo) \<noteq> i) (todos s)\<rparr>
      | Rejected \<Rightarrow> s)"

definition deleteTask_run :: "bool \<Rightarrow> nat \<Rightarrow> state \<Rightarrow> unit outcome \<Rightarrow> state" where
  "deleteTask_run confirmed i s out =
     (case deleteTask_begin confirmed i s of
        Finished s1 \<Rightarrow> s1 | Awaiting s1 k \<Rightarrow> deleteTask_resume k s1 out)"

text \<open>\<^verbatim>\<open>startEditing\<close> and \<^verbatim>\<open>cancelEdit\<close>\<close>

definition startEditing :: "ref \<Rightarrow> state \<Rightarrow> state" where
  "startEditing todo s =
     s\<lparr>editingTaskId := Some (task_id (heap s todo)), editingTitle := title (heap s todo)\<rparr>"

definition cancelEdit :: "state \<Rightarrow> state" where
  "cancelEdit s = s\<lparr>editingTaskId := None, editingTitle := []\<rparr>"

text \<open>\<^verbatim>\<open>saveEdit\<close>\<close>

definition saveEdit_begin :: "ref \<Rightarrow> state \<Rightarrow> ref step" where
  "saveEdit_begin todo s =
     Awaiting
       (send (PUT (task_id (heap s todo))
                [(''title'', JStr (editingTitle s)),
                 (''description'', json_description (description (heap s todo))),
                 (''is_completed'', JBool (is_completed (heap s todo)))]) s)
       todo"

definition saveEdit_resume :: "ref \<Rightarrow> state \<Rightarrow> task outcome \<Rightarrow> state" where
  "saveEdit_resume todo s out =
     (case out of
        Resolved data \<Rightarrow>
          (let index = findIndex (\<lambda>t. task_id (heap s t) = task_id (heap s todo)) (todos s)
           in cancelEdit
                (if index \<noteq> - 1
                 then (case alloc data s of (r, s1) \<Rightarrow> s1\<lparr>todos := (todos s1)[nat index := r]\<rparr>)
                 else s))
      | Rejected \<Rightarrow> s)"

definition saveEdit_run :: "ref \<Rightarrow> state \<Rightarrow> task outcome \<Rightarrow> state" where
  "saveEdit_run todo s out =
     (case saveEdit_begin todo s of
        Finished s1 \<Rightarrow> s1 | Awaiting s1 k \<Rightarrow> saveEdit_resume k s1 out)"

text \<open>\<^verbatim>\<open>toggleTodoStatus\<close>; the suspended handler keeps \<^verbatim>\<open>todo\<close> and \<^verbatim>\<open>originalStatus\<close>.\<close>

definition toggleTodoStatus_begin :: "ref \<Rightarrow> state \<Rightarrow> (ref \<times> bool) step" where
  "toggleTodoStatus_begin todo s =
     (let originalStatus = is_completed (heap s todo);
          s1 = s\<lparr>heap := (heap s)(todo := (heap s todo)\<lparr>is_completed := \<not> is_completed (heap s todo)\<rparr>)\<rparr>
      in Awaiting (send (PUT (task_id (heap s1 todo)) (task_body (heap s1 todo))) s1)
           (todo, originalStatus))"

definition toggleTodoStatus_resume :: "ref \<times> bool \<Rightarrow> state \<Rightarrow> task outcome \<Rightarrow> state" where
  "toggleTodoStatus_resume k s out =
     (case k of
        (todo, originalStatus) \<Rightarrow>
          (case out of
             Resolved _ \<Rightarrow> s
           | Rejected \<Rightarrow> s\<lparr>heap := (heap s)(todo := (heap s todo)\<lparr>is_completed := originalStatus\<rparr>)\<rparr>))"

definition toggleTodoStatus_run :: "ref \<Rightarrow> state \<Rightarrow> task outcome \<Rightarrow> state" where
  "toggleTodoStatus_run todo s out =
     (case toggleTodoStatus_begin todo s of
        Finished s1 \<Rightarrow> s1 | Awaiting s1 k \<Rightarrow> toggleTodoStatus_resume k s1 out)"

text \<open>The \<^verbatim>\<open>onMounted\<close> callback\<close>

definition onMounted_begin :: "state \<Rightarrow> unit step" where
  "onMounted_begin s = Awaiting (send GET s) ()"

definition onMounted_resume :: "state \<Rightarrow> task list outcome \<Rightarrow> state" where
  "onMounted_resume s out =
     (case out of
        Resolved data \<Rightarrow> (case alloc_all data s of (rs, s1) \<Rightarrow> s1\<lparr>todos := rs\<rparr>)
      | Rejected \<Rightarrow> s)"

definition onMounted_run :: "state \<Rightarrow> task list outcome \<Rightarrow> state" where
  "onMounted_run s out =
     (case onMounted_begin s of Finished s1 \<Rightarrow> s1 | Awaiting s1 _ \<Rightarrow> onMounted_resume s1 out)"

subsection \<open>Observations and sample states\<close>

text \<open>The cells of the component: the state with the record of requests blanked.\<close>

definition cells :: "state \<Rightarrow> state" where
  "cells s = s\<lparr>sent := []\<rparr>"

definition state_of :: "'k step \<Rightarrow> state" where
  "state_of st = (case st of Finished s \<Rightarrow> s | Awaiting s _ \<Rightarrow> s)"

text \<open>A list holding one completed task, obtained by a successful create.\<close>

definition ex_task :: task where
  "ex_task = \<lparr>task_id = 1, title = ascii ''A'', description = Some (ascii ''urgent''),
              is_completed = True\<rparr>"

definition ex_state :: state where
  "ex_state = addTask_resume init (Resolved ex_task)"

text \<open>
  The delete button of the one row pressed twice and confirmed twice, before either
  response has arrived.
\<close>

definition twice_deleted :: state where
  "twice_deleted = send (DELETE 1) (send (DELETE 1) ex_state)"

text \<open>The one row put in edit mode and \<^verbatim>\<open>Buy milk\<close> typed into its input.\<close>

definition milk_state :: state where
  "milk_state = (startEditing 0 ex_state)\<lparr>editingTitle := ascii ''Buy milk''\<rparr>"

text \<open>
  A second task created, its row put in edit mode, \<^verbatim>\<open>C\<close> typed and the save button
  pressed; \<open>saved_task2\<close> is the record the server answers with.
\<close>

definition ex_task2 :: task where
  "ex_task2 = \<lparr>task_id = 2, title = ascii ''B'', description = None, is_completed = False\<rparr>"

definition saved_task2 :: task where
  "saved_task2 = \<lparr>task_id = 2, title = ascii ''C'', description = None, is_completed = False\<rparr>"

definition two_tasks :: state where
  "two_tasks = addTask_resume ex_state (Resolved ex_task2)"

definition editing_second :: state where
  "editing_second =
     state_of (saveEdit_begin 1 ((startEditing 1 two_tasks)\<lparr>editingTitle := ascii ''C''\<rparr>))"

text \<open>
  The save of \<open>milk_state\<close> is outstanding when the row is deleted and the delete is
  fulfilled first.
\<close>

definition deleted_while_saving :: state where
  "deleted_while_saving =
     deleteTask_resume 1
       (state_of (deleteTask_begin True 1 (state_of (saveEdit_begin 0 milk_state))))
       (Resolved ())"

text \<open>
  The run of the specification's example: from the empty list, create \<^verbatim>\<open>A\<close>, toggle it
  with the server confirming, delete it with the confirmation accepted.
\<close>

definition created_A :: state where
  "created_A =
     addTask_run (init\<lparr>newTaskTitle := ascii ''A''\<rparr>)
       (Resolved \<lparr>task_id = 1, title = ascii ''A'', description = None, is_completed = False\<rparr>)"

definition toggled_A :: state where
  "toggled_A =
     toggleTodoStatus_run 0 created_A
       (Resolved \<lparr>task_id = 1, title = ascii ''A'', description = None, is_completed = True\<rparr>)"

definition deleted_A :: state where
  "deleted_A = deleteTask_run True 1 toggled_A (Resolved ())"

section \<open>Auxiliary facts\<close>

lemmas ex_defs = ex_state_def ex_task_def ex_task2_def saved_task2_def two_tasks_def
  editing_second_def milk_state_def deleted_while_saving_def twice_deleted_def init_def
  addTask_resume_def alloc_def state_of_def startEditing_def saveEdit_begin_def send_def
  deleteTask_begin_def deleteTask_resume_def

subsection \<open>\<^verbatim>\<open>trim\<close>\<close>

lemma dropWhile_all: "list_all P (dropWhile P xs) \<longleftrightarrow> list_all P xs"
  by (induction xs) auto

lemma trim_Nil_iff: "trim s = [] \<longleftrightarrow> list_all isWhiteSpace s"
  by (simp add: trim_def dropWhile_eq_Nil_conv dropWhile_all flip: list_all_iff)

subsection \<open>\<^verbatim>\<open>findIndex\<close>\<close>

lemma findIndex_from_none:
  "\<not> list_ex P xs \<Longrightarrow> findIndex_from P xs k = - 1"
  by (induction xs arbitrary: k) auto

lemma findIndex_from_first:
  "i < length xs \<Longrightarrow> P (xs ! i) \<Longrightarrow> (\<And>j. j < i \<Longrightarrow> \<not> P (xs ! j)) \<Longrightarrow>
   findIndex_from P xs k = k + int i"
proof (induction xs arbitrary: i k)
  case Nil
  then show ?case by simp
next
  case (Cons x xs)
  show ?case
  proof (cases i)
    case 0
    with Cons.prems show ?thesis by simp
  next
    case (Suc n)
    have "\<not> P x" using Cons.prems(3) [of 0] Suc by simp
    moreover have "findIndex_from P xs (k + 1) = (k + 1) + int n"
    proof (rule Cons.IH)
      show "n < length xs" using Cons.prems(1) Suc by simp
      show "P (xs ! n)" using Cons.prems(2) Suc by simp
      show "\<not> P (xs ! j)" if "j < n" for j
        using Cons.prems(3) [of "Suc j"] that Suc by simp
    qed
    ultimately show ?thesis using Suc by simp
  qed
qed

lemma findIndex_none: "\<not> list_ex P xs \<Longrightarrow> findIndex P xs = - 1"
  by (simp add: findIndex_def findIndex_from_none)

lemma findIndex_first:
  "i < length xs \<Longrightarrow> P (xs ! i) \<Longrightarrow> (\<And>j. j < i \<Longrightarrow> \<not> P (xs ! j)) \<Longrightarrow> findIndex P xs = int i"
  using findIndex_from_first [of i xs P 0] by (simp add: findIndex_def)

text \<open>
  The index is \<open>- 1\<close> or a position of the list, so the assignment
  \<^verbatim>\<open>todos.value[index] = ...\<close> in \<^verbatim>\<open>saveEdit\<close> never extends the array.
\<close>

lemma findIndex_from_range:
  "findIndex_from P xs k = - 1 \<or> (k \<le> findIndex_from P xs k \<and> findIndex_from P xs k < k + int (length xs))"
proof (induction xs arbitrary: k)
  case Nil
  then show ?case by simp
next
  case (Cons x xs)
  from Cons.IH [of "k + 1"] show ?case by auto
qed

lemma findIndex_range:
  "findIndex P xs = - 1 \<or> (0 \<le> findIndex P xs \<and> findIndex P xs < int (length xs))"
  using findIndex_from_range [of P xs 0] by (simp add: findIndex_def)

subsection \<open>The list refers to created objects only\<close>

lemma cells_send [simp]: "cells (send r s) = cells s"
  by (simp add: cells_def send_def)

text \<open>A new object does not disturb the entries already in the list.\<close>

lemma tasks_alloc:
  "refs_ok s \<Longrightarrow> map ((heap s)(nextRef s := t)) (todos s) = map (heap s) (todos s)"
  by (auto simp: refs_ok_def list_all_iff)

lemma refs_ok_init: "refs_ok init"
  by (simp add: refs_ok_def init_def)

lemma refs_ok_send: "refs_ok (send r s) = refs_ok s"
  by (simp add: refs_ok_def send_def)

lemma refs_ok_addTask_resume: "refs_ok s \<Longrightarrow> refs_ok (addTask_resume s out)"
  by (cases out) (auto simp: refs_ok_def addTask_resume_def alloc_def list_all_iff less_Suc_eq)

lemma refs_ok_deleteTask_resume: "refs_ok s \<Longrightarrow> refs_ok (deleteTask_resume i s out)"
  by (cases out) (auto simp: refs_ok_def deleteTask_resume_def list_all_iff)

lemma refs_ok_saveEdit_resume: "refs_ok s \<Longrightarrow> refs_ok (saveEdit_resume todo s out)"
  by (cases out)
    (auto simp: refs_ok_def saveEdit_resume_def cancelEdit_def alloc_def list_all_iff Let_def
      less_Suc_eq dest!: set_update_subset_insert [THEN subsetD])

lemma refs_ok_toggleTodoStatus_resume: "refs_ok s \<Longrightarrow> refs_ok (toggleTodoStatus_resume k s out)"
  by (cases out; cases k) (auto simp: refs_ok_def toggleTodoStatus_resume_def)

lemma alloc_all_refs:
  "alloc_all ts s = (rs, s1) \<Longrightarrow>
   nextRef s \<le> nextRef s1 \<and> list_all (\<lambda>r. r < nextRef s1) rs \<and> todos s1 = todos s \<and> sent s1 = sent s"
proof (induction ts arbitrary: s rs s1)
  case Nil
  then show ?case by simp
next
  case (Cons t ts)
  obtain rs' s2 where rest: "alloc_all ts (snd (alloc t s)) = (rs', s2)"
    by (cases "alloc_all ts (snd (alloc t s))") blast
  from Cons.IH [OF rest] Cons.prems rest show ?case
    by (auto simp: alloc_def split: prod.splits)
qed

lemma refs_ok_onMounted_resume: "refs_ok (onMounted_resume s out)" if "refs_ok s"
proof (cases out)
  case (Resolved data)
  obtain rs s1 where a: "alloc_all data s = (rs, s1)"
    by (cases "alloc_all data s") blast
  with alloc_all_refs [OF a] Resolved show ?thesis
    by (simp add: onMounted_resume_def refs_ok_def)
next
  case Rejected
  with that show ?thesis by (simp add: onMounted_resume_def)
qed

section \<open>The claims\<close>

text \<open>
  C1. \<^verbatim>\<open>toggleTodoStatus\<close> always reaches its request, and by then the flag of the task
  object is already the negation of what it was: the state handed to the event loop has
  the flipped flag and the body of the PUT is that flipped object. When the request is
  rejected, the handler writes the flag the object had before the toggle back into it and
  changes nothing else, whatever has happened meanwhile; if the rejection comes with
  nothing in between, every cell is as before the toggle. When the request is fulfilled,
  the handler changes nothing: the response body is dropped.
\<close>

theorem toggleTodoStatus_optimistic:
  "\<exists>s1 k. toggleTodoStatus_begin todo s = Awaiting s1 k
     \<and> is_completed (heap s1 todo) = (\<not> is_completed (heap s todo))
     \<and> sent s1 = sent s @ [PUT (task_id (heap s todo)) (task_body (heap s1 todo))]
     \<and> (\<forall>s2. toggleTodoStatus_resume k s2 Rejected =
              s2\<lparr>heap := (heap s2)(todo := (heap s2 todo)\<lparr>is_completed := is_completed (heap s todo)\<rparr>)\<rparr>)
     \<and> (\<forall>s2 data. toggleTodoStatus_resume k s2 (Resolved data) = s2)
     \<and> cells (toggleTodoStatus_resume k s1 Rejected) = cells s"
  by (simp add: toggleTodoStatus_begin_def toggleTodoStatus_resume_def send_def Let_def cells_def)

text \<open>
  C2. With a draft that \<^verbatim>\<open>trim\<close> does not empty, \<^verbatim>\<open>addTask\<close> posts the draft with
  \<^verbatim>\<open>is_completed: false\<close> and changes no cell. When the request is fulfilled with the
  record \<open>data\<close>, the list at that moment grows by exactly one entry, that entry is
  \<open>data\<close> (so it carries the id the server assigned) and is the last one, the earlier
  entries are as they were, and the draft is empty.
\<close>

theorem addTask_success:
  assumes "trim (newTaskTitle s) \<noteq> []" and "refs_ok s2"
  shows "(\<exists>s1. addTask_begin s = Awaiting s1 ()
            \<and> sent s1 = sent s @ [POST [(''title'', JStr (newTaskTitle s)), (''is_completed'', JBool False)]]
            \<and> cells s1 = cells s)
       \<and> length (tasks (addTask_resume s2 (Resolved data))) = length (tasks s2) + 1
       \<and> tasks (addTask_resume s2 (Resolved data)) = tasks s2 @ [data]
       \<and> task_id (last (tasks (addTask_resume s2 (Resolved data)))) = task_id data
       \<and> newTaskTitle (addTask_resume s2 (Resolved data)) = []"
  using assms tasks_alloc [OF assms(2)]
  by (simp add: addTask_begin_def addTask_resume_def alloc_def tasks_def send_def cells_def)

theorem addTask_success_witness:
  "trim (newTaskTitle (init\<lparr>newTaskTitle := ascii ''A''\<rparr>)) \<noteq> [] \<and> refs_ok init \<and>
   tasks (addTask_resume init (Resolved ex_task)) = [ex_task] \<and>
   newTaskTitle (addTask_resume init (Resolved ex_task)) = []"
  using addTask_success [of "init\<lparr>newTaskTitle := ascii ''A''\<rparr>" init ex_task]
  by (simp add: init_def ascii_def trim_def isWhiteSpace_def refs_ok_def tasks_def)

text \<open>
  C3. When every code unit of the draft is white space for \<^verbatim>\<open>trim\<close> (the empty draft
  included), \<^verbatim>\<open>addTask\<close> returns at once: no request is recorded and the whole state,
  list and draft included, is what it was.
\<close>

theorem addTask_blank:
  assumes "list_all isWhiteSpace (newTaskTitle s)"
  shows "addTask_begin s = Finished s \<and> addTask_run s out = s"
  using assms by (simp add: addTask_begin_def addTask_run_def trim_Nil_iff)

theorem addTask_blank_witness:
  "list_all isWhiteSpace (newTaskTitle (ex_state\<lparr>newTaskTitle := [0x20, 0x09, 0x3000]\<rparr>)) \<and>
   addTask_begin (ex_state\<lparr>newTaskTitle := [0x20, 0x09, 0x3000]\<rparr>) =
     Finished (ex_state\<lparr>newTaskTitle := [0x20, 0x09, 0x3000]\<rparr>)"
  using addTask_blank [of "ex_state\<lparr>newTaskTitle := [0x20, 0x09, 0x3000]\<rparr>"]
  by (simp add: isWhiteSpace_def)

text \<open>
  C4, as stated, fails. The list holds the single task with id 1; its delete button is
  pressed and confirmed twice before any response arrives, and both requests are
  fulfilled. The handler of the first response empties the list. The handler of the second
  finds no entry with id 1, and the length of the list is not one less than it was.
\<close>

theorem deleteTask_length_counterexample:
  "deleteTask_begin True 1 ex_state = Awaiting (send (DELETE 1) ex_state) 1 \<and>
   deleteTask_begin True 1 (send (DELETE 1) ex_state) = Awaiting twice_deleted 1 \<and>
   tasks twice_deleted = [ex_task] \<and>
   tasks (deleteTask_resume 1 twice_deleted (Resolved ())) = [] \<and>
   length (tasks (deleteTask_resume 1 (deleteTask_resume 1 twice_deleted (Resolved ())) (Resolved ()))) + 1
     \<noteq> length (tasks (deleteTask_resume 1 twice_deleted (Resolved ())))"
  by (simp add: deleteTask_begin_def deleteTask_resume_def twice_deleted_def ex_state_def
      ex_task_def addTask_resume_def alloc_def init_def send_def tasks_def)

text \<open>
  C4, amended. When a delete of id \<open>i\<close> is fulfilled, the list becomes the list of that
  moment without its entries of id \<open>i\<close>: no entry with id \<open>i\<close> remains, and the length
  goes down by the number of entries that carried \<open>i\<close>, which is exactly one when
  exactly one entry carried it.
\<close>

theorem deleteTask_success:
  "(\<forall>t \<in> set (tasks (deleteTask_resume i s (Resolved ()))). task_id t \<noteq> i)
   \<and> tasks (deleteTask_resume i s (Resolved ())) = filter (\<lambda>t. task_id t \<noteq> i) (tasks s)
   \<and> length (tasks (deleteTask_resume i s (Resolved ())))
       + length (filter (\<lambda>t. task_id t = i) (tasks s)) = length (tasks s)
   \<and> (length (filter (\<lambda>t. task_id t = i) (tasks s)) = 1 \<longrightarrow>
        length (tasks (deleteTask_resume i s (Resolved ()))) + 1 = length (tasks s))"
proof -
  have eq: "tasks (deleteTask_resume i s (Resolved ())) = filter (\<lambda>t. task_id t \<noteq> i) (tasks s)"
    by (simp add: deleteTask_resume_def tasks_def filter_map comp_def)
  have len: "length (filter (\<lambda>t. task_id t \<noteq> i) (tasks s))
       + length (filter (\<lambda>t. task_id t = i) (tasks s)) = length (tasks s)"
    using sum_length_filter_compl [of "\<lambda>t. task_id t = i" "tasks s"] by simp
  show ?thesis using len by (simp add: eq)
qed

theorem deleteTask_success_witness:
  "length (filter (\<lambda>t. task_id t = 1) (tasks ex_state)) = 1 \<and>
   tasks (deleteTask_resume 1 ex_state (Resolved ())) = [] \<and>
   length (tasks (deleteTask_resume 1 ex_state (Resolved ()))) + 1 = length (tasks ex_state)"
  using deleteTask_success [of 1 ex_state]
  by (simp add: ex_state_def ex_task_def addTask_resume_def alloc_def init_def tasks_def)

text \<open>
  C5. \<^verbatim>\<open>saveEdit\<close> always reaches its request and changes no cell before it. The request
  is a PUT on the task's id whose body has exactly three fields: the draft as
  \<^verbatim>\<open>title\<close>, and the \<^verbatim>\<open>description\<close> and \<^verbatim>\<open>is_completed\<close> of the task object as they
  are. The instance below is the one of the specification: draft \<^verbatim>\<open>Buy milk\<close> on a task
  with description \<^verbatim>\<open>urgent\<close> and completion \<^verbatim>\<open>true\<close>.
\<close>

theorem saveEdit_body:
  assumes "heap s todo = \<lparr>task_id = i, title = t0, description = d, is_completed = c\<rparr>"
    and "editingTitle s = t"
  shows "\<exists>s1. saveEdit_begin todo s = Awaiting s1 todo
           \<and> sent s1 = sent s @ [PUT i [(''title'', JStr t),
                                        (''description'', json_description d),
                                        (''is_completed'', JBool c)]]
           \<and> cells s1 = cells s"
  using assms by (simp add: saveEdit_begin_def send_def cells_def)

theorem saveEdit_body_witness:
  "heap milk_state 0 = \<lparr>task_id = 1, title = ascii ''A'', description = Some (ascii ''urgent''),
                         is_completed = True\<rparr> \<and>
   editingTitle milk_state = ascii ''Buy milk'' \<and>
   sent (state_of (saveEdit_begin 0 milk_state)) =
     [PUT 1 [(''title'', JStr (ascii ''Buy milk'')), (''description'', JStr (ascii ''urgent'')),
             (''is_completed'', JBool True)]]"
  using saveEdit_body [of milk_state 0 1 "ascii ''A''" "Some (ascii ''urgent'')" True "ascii ''Buy milk''"]
  by (simp add: ex_defs json_description_def)

text \<open>
  C6. When the PUT of \<^verbatim>\<open>saveEdit\<close> is rejected, the handler changes nothing, so an open
  edit session stays open with its draft. When it is fulfilled, the edit session is
  cleared (no task id, empty draft); hence an open session is closed by the handler exactly
  when the request succeeded. On success, moreover, the first entry of the list whose id
  is the id of the edited task is replaced by the record of the response, and the other
  entries are as they were.
\<close>

theorem saveEdit_outcome:
  "saveEdit_resume todo s Rejected = s
   \<and> editingTaskId (saveEdit_resume todo s (Resolved data)) = None
   \<and> editingTitle (saveEdit_resume todo s (Resolved data)) = []
   \<and> (editingTaskId s \<noteq> None \<longrightarrow>
        (editingTaskId (saveEdit_resume todo s out) = None) = (out \<noteq> Rejected))
   \<and> (refs_ok s \<and> n < length (tasks s) \<and> task_id (tasks s ! n) = task_id (heap s todo)
        \<and> (\<forall>j<n. task_id (tasks s ! j) \<noteq> task_id (heap s todo))
      \<longrightarrow> tasks (saveEdit_resume todo s (Resolved data)) = (tasks s)[n := data])"
proof -
  have rej: "saveEdit_resume todo s Rejected = s"
    by (simp add: saveEdit_resume_def)
  have id_None: "editingTaskId (saveEdit_resume todo s (Resolved data)) = None" for data
    by (simp add: saveEdit_resume_def cancelEdit_def Let_def)
  have title_Nil: "editingTitle (saveEdit_resume todo s (Resolved data)) = []"
    by (simp add: saveEdit_resume_def cancelEdit_def Let_def)
  have iff: "(editingTaskId (saveEdit_resume todo s out) = None) = (out \<noteq> Rejected)"
    if "editingTaskId s \<noteq> None"
    using that id_None rej by (cases out) auto
  have repl: "tasks (saveEdit_resume todo s (Resolved data)) = (tasks s)[n := data]"
    if ok: "refs_ok s" and n: "n < length (tasks s)"
      and hit: "task_id (tasks s ! n) = task_id (heap s todo)"
      and first: "\<forall>j<n. task_id (tasks s ! j) \<noteq> task_id (heap s todo)"
  proof -
    have "findIndex (\<lambda>t. task_id (heap s t) = task_id (heap s todo)) (todos s) = int n"
      using n hit first by (intro findIndex_first) (simp_all add: tasks_def)
    then show ?thesis
      using n
      by (simp add: saveEdit_resume_def cancelEdit_def alloc_def tasks_def map_update
          tasks_alloc [OF ok])
  qed
  show ?thesis using rej id_None title_Nil iff repl by blast
qed

theorem saveEdit_outcome_witness:
  "editingTaskId editing_second \<noteq> None \<and> refs_ok editing_second \<and>
   1 < length (tasks editing_second) \<and>
   task_id (tasks editing_second ! 1) = task_id (heap editing_second 1) \<and>
   task_id (tasks editing_second ! 0) \<noteq> task_id (heap editing_second 1) \<and>
   tasks editing_second = [ex_task, ex_task2] \<and>
   tasks (saveEdit_resume 1 editing_second (Resolved saved_task2)) = [ex_task, saved_task2] \<and>
   editingTaskId (saveEdit_resume 1 editing_second (Resolved saved_task2)) = None \<and>
   editingTaskId (saveEdit_resume 1 editing_second Rejected) = Some 2"
  using saveEdit_outcome [of 1 editing_second saved_task2 "Resolved saved_task2" 1]
    saveEdit_outcome [of 1 editing_second saved_task2 Rejected 1]
  by (simp add: ex_defs refs_ok_def tasks_def)

text \<open>
  C7. The rejection branches of \<^verbatim>\<open>addTask\<close>, \<^verbatim>\<open>deleteTask\<close>, \<^verbatim>\<open>saveEdit\<close> and the mount
  callback change nothing at all. So a call of any of the five requesting handlers whose
  request is rejected leaves every cell as it was before the call: the list and its
  entries in all five, the input draft after a failed create, the edit session and its
  draft after a failed save, and everything after a failed delete or a failed fetch.
\<close>

theorem failure_keeps_state:
  "addTask_resume s Rejected = s \<and> deleteTask_resume i s Rejected = s
   \<and> saveEdit_resume todo s Rejected = s \<and> onMounted_resume s Rejected = s
   \<and> cells (addTask_run s Rejected) = cells s
   \<and> cells (deleteTask_run c i s Rejected) = cells s
   \<and> cells (saveEdit_run todo s Rejected) = cells s
   \<and> cells (onMounted_run s Rejected) = cells s
   \<and> cells (toggleTodoStatus_run todo s Rejected) = cells s
   \<and> tasks (addTask_run s Rejected) = tasks s
   \<and> newTaskTitle (addTask_run s Rejected) = newTaskTitle s
   \<and> tasks (saveEdit_run todo s Rejected) = tasks s
   \<and> editingTaskId (saveEdit_run todo s Rejected) = editingTaskId s
   \<and> editingTitle (saveEdit_run todo s Rejected) = editingTitle s
   \<and> tasks (deleteTask_run c i s Rejected) = tasks s
   \<and> tasks (onMounted_run s Rejected) = tasks s
   \<and> tasks (toggleTodoStatus_run todo s Rejected) = tasks s"
  by (simp add: addTask_resume_def deleteTask_resume_def saveEdit_resume_def onMounted_resume_def
      addTask_run_def deleteTask_run_def saveEdit_run_def onMounted_run_def toggleTodoStatus_run_def
      addTask_begin_def deleteTask_begin_def saveEdit_begin_def onMounted_begin_def
      toggleTodoStatus_begin_def toggleTodoStatus_resume_def cells_def send_def tasks_def Let_def)

text \<open>
  C8. \<^verbatim>\<open>deleteTask\<close> records a request only if \<^verbatim>\<open>confirm\<close> returned true. When it
  returned false the handler returns at once and the whole state is what it was.
\<close>

theorem deleteTask_confirmation:
  "(sent (state_of (deleteTask_begin c i s)) \<noteq> sent s \<longrightarrow> c)
   \<and> (sent (deleteTask_run c i s out) \<noteq> sent s \<longrightarrow> c)
   \<and> (\<not> c \<longrightarrow> deleteTask_begin c i s = Finished s \<and> deleteTask_run c i s out = s)"
  by (simp add: deleteTask_begin_def deleteTask_run_def state_of_def)

theorem deleteTask_confirmation_witness:
  "sent (state_of (deleteTask_begin True 1 ex_state)) \<noteq> sent ex_state \<and>
   sent (deleteTask_run True 1 ex_state (Resolved ())) \<noteq> sent ex_state \<and>
   deleteTask_begin False 1 ex_state = Finished ex_state \<and>
   deleteTask_run False 1 ex_state (Resolved ()) = ex_state"
  using deleteTask_confirmation [of True 1 ex_state "Resolved ()"]
    deleteTask_confirmation [of False 1 ex_state "Resolved ()"]
  by (simp add: deleteTask_begin_def deleteTask_run_def deleteTask_resume_def state_of_def send_def)

text \<open>
  C9. \<^verbatim>\<open>startEditing\<close> and \<^verbatim>\<open>cancelEdit\<close> record no request and touch neither the list
  nor any task object. \<^verbatim>\<open>startEditing\<close> sets the edited id to the id of the task and the
  draft to its title; \<^verbatim>\<open>cancelEdit\<close> sets the edited id to none and the draft to the empty
  string, whatever they were. Starting an edit, typing any draft and cancelling leaves
  the rendered list, titles included, as it was.
\<close>

theorem editing_is_local:
  "sent (startEditing todo s) = sent s \<and> todos (startEditing todo s) = todos s
   \<and> heap (startEditing todo s) = heap s \<and> tasks (startEditing todo s) = tasks s
   \<and> editingTaskId (startEditing todo s) = Some (task_id (heap s todo))
   \<and> editingTitle (startEditing todo s) = title (heap s todo)
   \<and> sent (cancelEdit s) = sent s \<and> todos (cancelEdit s) = todos s
   \<and> heap (cancelEdit s) = heap s \<and> tasks (cancelEdit s) = tasks s
   \<and> editingTaskId (cancelEdit s) = None \<and> editingTitle (cancelEdit s) = []
   \<and> cancelEdit ((startEditing todo s)\<lparr>editingTitle := draft\<rparr>) = cancelEdit s
   \<and> tasks (cancelEdit ((startEditing todo s)\<lparr>editingTitle := draft\<rparr>)) = tasks s"
  by (simp add: startEditing_def cancelEdit_def tasks_def)

text \<open>
  C10. When the PUT of \<^verbatim>\<open>saveEdit\<close> is fulfilled and no entry of the list has the id of
  the edited task, the handler does what \<^verbatim>\<open>cancelEdit\<close> does and nothing more: the
  list and the task objects are untouched and the edit session is cleared.
\<close>

theorem saveEdit_absent:
  assumes "\<not> list_ex (\<lambda>t. task_id t = task_id (heap s todo)) (tasks s)"
  shows "saveEdit_resume todo s (Resolved data) = cancelEdit s
       \<and> todos (saveEdit_resume todo s (Resolved data)) = todos s
       \<and> heap (saveEdit_resume todo s (Resolved data)) = heap s
       \<and> tasks (saveEdit_resume todo s (Resolved data)) = tasks s
       \<and> editingTaskId (saveEdit_resume todo s (Resolved data)) = None
       \<and> editingTitle (saveEdit_resume todo s (Resolved data)) = []"
proof -
  have "\<not> list_ex (\<lambda>t. task_id (heap s t) = task_id (heap s todo)) (todos s)"
    using assms by (simp add: tasks_def list_ex_iff)
  then have "findIndex (\<lambda>t. task_id (heap s t) = task_id (heap s todo)) (todos s) = - 1"
    by (rule findIndex_none)
  then show ?thesis
    by (simp add: saveEdit_resume_def cancelEdit_def tasks_def)
qed

theorem saveEdit_absent_witness:
  "\<not> list_ex (\<lambda>t. task_id t = task_id (heap deleted_while_saving 0)) (tasks deleted_while_saving) \<and>
   task_id (heap deleted_while_saving 0) = 1 \<and>
   editingTaskId deleted_while_saving = Some 1 \<and>
   tasks deleted_while_saving = [] \<and>
   tasks (saveEdit_resume 0 deleted_while_saving (Resolved ex_task)) = [] \<and>
   editingTaskId (saveEdit_resume 0 deleted_while_saving (Resolved ex_task)) = None"
  using saveEdit_absent [of deleted_while_saving 0 ex_task]
  by (simp add: ex_defs tasks_def cancelEdit_def)

section \<open>The example run\<close>

lemma example_run:
  "tasks created_A = [\<lparr>task_id = 1, title = ascii ''A'', description = None, is_completed = False\<rparr>]"
  "newTaskTitle created_A = []"
  "is_completed (heap (state_of (toggleTodoStatus_begin 0 created_A)) 0)"
  "tasks toggled_A = [\<lparr>task_id = 1, title = ascii ''A'', description = None, is_completed = True\<rparr>]"
  "tasks deleted_A = []"
  "length (sent deleted_A) = 3"
  by (simp_all add: created_A_def toggled_A_def deleted_A_def addTask_run_def addTask_begin_def
      addTask_resume_def toggleTodoStatus_run_def toggleTodoStatus_begin_def
      toggleTodoStatus_resume_def deleteTask_run_def deleteTask_begin_def deleteTask_resume_def
      alloc_def send_def init_def tasks_def state_of_def trim_def ascii_def isWhiteSpace_def Let_def)

end
